theory Spec2Isabelle
  imports Complex_Main
begin

section \<open>The drawing application: shapes and the view-model state\<close>

text \<open>
  The model follows \<^verbatim>\<open>src/src/App.tsx\<close>. A JavaScript number is the \<^typ>\<open>real\<close>
  it denotes. The arithmetic of the handlers is written with the exact operations of the
  reals, except for the additions of \<^verbatim>\<open>onDragEnd\<close>, whose results are rounded to the
  nearest double: what holds of a drag depends on that rounding. A shape is the plain object the handlers pass around: the
  fields of \<^verbatim>\<open>BaseShape\<close> are always there, the fields of one variant
  (\<^verbatim>\<open>width\<close>, \<^verbatim>\<open>height\<close>, \<^verbatim>\<open>radius\<close>, \<^verbatim>\<open>fill\<close>, \<^verbatim>\<open>x2\<close>, \<^verbatim>\<open>y2\<close>) are optional,
  since the object spread of \<^verbatim>\<open>updateShape\<close> and the \<^verbatim>\<open>as any\<close> casts work on
  the object and not on the declared union. \<open>None\<close> in an optional field stands for
  a property that is absent or holds no value (\<^verbatim>\<open>undefined\<close>, and for a number also
  \<^verbatim>\<open>NaN\<close>).
\<close>

datatype ShapeType = rectangle | circle | line

datatype StrokeStyle = solid | dashed

record Shape =
  id_s :: string
  type_s :: ShapeType
  x_s :: real
  y_s :: real
  stroke_s :: string
  strokeWidth_s :: real
  strokeStyle_s :: StrokeStyle
  width_s :: "real option"
  height_s :: "real option"
  radius_s :: "real option"
  fill_s :: "string option"
  x2_s :: "real option"
  y2_s :: "real option"

text \<open>
  \<^verbatim>\<open>Partial<Shape>\<close>: every key may be missing (\<open>None\<close>). A key of a variant field
  that is present carries the optional value of that field.
\<close>

record Attrs =
  id_a :: "string option"
  type_a :: "ShapeType option"
  x_a :: "real option"
  y_a :: "real option"
  stroke_a :: "string option"
  strokeWidth_a :: "real option"
  strokeStyle_a :: "StrokeStyle option"
  width_a :: "real option option"
  height_a :: "real option option"
  radius_a :: "real option option"
  fill_a :: "string option option"
  x2_a :: "real option option"
  y2_a :: "real option option"

definition no_attrs :: Attrs where
  "no_attrs = \<lparr> id_a = None, type_a = None, x_a = None, y_a = None, stroke_a = None,
     strokeWidth_a = None, strokeStyle_a = None, width_a = None, height_a = None,
     radius_a = None, fill_a = None, x2_a = None, y2_a = None \<rparr>"

text \<open>The state of the \<^verbatim>\<open>App\<close> component: one field for each \<^verbatim>\<open>useState\<close>.\<close>

record AppState =
  shapes :: "Shape list"
  tool :: ShapeType
  selectedId :: "string option"
  strokeColor :: string
  fillColor :: "string option"
  strokeWidth :: real
  strokeStyle :: StrokeStyle
  isDrawing :: bool
  newShape :: "Shape option"

subsection \<open>updateShape\<close>

text \<open>The object spread \<^verbatim>\<open>{ ...s, ...attrs }\<close>: a key of \<^verbatim>\<open>attrs\<close> wins.\<close>

definition pick :: "'a option \<Rightarrow> 'a \<Rightarrow> 'a" where
  "pick a v = (case a of None \<Rightarrow> v | Some w \<Rightarrow> w)"

definition spread :: "Shape \<Rightarrow> Attrs \<Rightarrow> Shape" where
  "spread s attrs =
     \<lparr> id_s = pick (id_a attrs) (id_s s),
       type_s = pick (type_a attrs) (type_s s),
       x_s = pick (x_a attrs) (x_s s),
       y_s = pick (y_a attrs) (y_s s),
       stroke_s = pick (stroke_a attrs) (stroke_s s),
       strokeWidth_s = pick (strokeWidth_a attrs) (strokeWidth_s s),
       strokeStyle_s = pick (strokeStyle_a attrs) (strokeStyle_s s),
       width_s = pick (width_a attrs) (width_s s),
       height_s = pick (height_a attrs) (height_s s),
       radius_s = pick (radius_a attrs) (radius_s s),
       fill_s = pick (fill_a attrs) (fill_s s),
       x2_s = pick (x2_a attrs) (x2_s s),
       y2_s = pick (y2_a attrs) (y2_s s) \<rparr>"

text \<open>
  \<^verbatim>\<open>setShapes((prev) => prev.map((s) => (s.id === id ? { ...s, ...attrs } : s)))\<close>
\<close>

definition updateShape :: "AppState \<Rightarrow> string \<Rightarrow> Attrs \<Rightarrow> AppState" where
  "updateShape st i attrs =
     st\<lparr> shapes := map (\<lambda>s. if id_s s = i then spread s attrs else s) (shapes st) \<rparr>"

subsection \<open>Rounding to a double\<close>

text \<open>
  The sum of two doubles in IEEE 754 arithmetic is their exact sum rounded to the nearest
  number with 53 significant bits, a tie going to the even significand. \<open>exponent r\<close> is
  the binary exponent of \<open>r\<close>, the \<open>e\<close> with \<open>pow2 e \<le> \<bar>r\<bar> < pow2 (e + 1)\<close>, found from the
  number of binary digits of the integer part of \<open>\<bar>r\<bar>\<close>, or of its inverse when
  \<open>\<bar>r\<bar> < 1\<close>. The exponent is not bounded: a sum beyond the largest double, which is
  \<^verbatim>\<open>Infinity\<close> in the program, is outside the model (a sum of doubles below the normal
  range is exact in both).
\<close>

fun bits :: "nat \<Rightarrow> nat" where
  "bits n = (if n = 0 then 0 else Suc (bits (n div 2)))"

declare bits.simps [simp del]

definition pow2 :: "int \<Rightarrow> real" where
  "pow2 e = (if 0 \<le> e then 2 ^ nat e else 1 / 2 ^ nat (- e))"

definition exponent :: "real \<Rightarrow> int" where
  "exponent r =
     (if 1 \<le> \<bar>r\<bar> then int (bits (nat \<lfloor>\<bar>r\<bar>\<rfloor>)) - 1
      else - int (bits (nat (\<lceil>1 / \<bar>r\<bar>\<rceil> - 1))))"

definition round_half_even :: "real \<Rightarrow> int" where
  "round_half_even t =
     (let f = \<lfloor>t\<rfloor>
      in if t - of_int f < 1 / 2 then f
         else if 1 / 2 < t - of_int f then f + 1
         else if even f then f else f + 1)"

definition to_double :: "real \<Rightarrow> real" where
  "to_double r =
     (if r = 0 then 0
      else let q = pow2 (exponent r - 52) in of_int (round_half_even (r / q)) * q)"

subsection \<open>Numbers that may be missing\<close>

text \<open>
  The arithmetic and comparisons of JavaScript on a value that may be \<^verbatim>\<open>undefined\<close> or
  \<^verbatim>\<open>NaN\<close>: an operation on no number gives no number, and every comparison with no
  number is false. \<open>js_add\<close> is the addition of \<^verbatim>\<open>onDragEnd\<close> and rounds its sum.
\<close>

definition js_lt :: "real option \<Rightarrow> real \<Rightarrow> bool" where
  "js_lt a b = (case a of None \<Rightarrow> False | Some v \<Rightarrow> v < b)"

definition js_add :: "real option \<Rightarrow> real \<Rightarrow> real option" where
  "js_add a b = (case a of None \<Rightarrow> None | Some v \<Rightarrow> Some (to_double (v + b)))"

definition js_sub :: "real option \<Rightarrow> real \<Rightarrow> real option" where
  "js_sub a b = (case a of None \<Rightarrow> None | Some v \<Rightarrow> Some (v - b))"

definition Math_abs :: "real option \<Rightarrow> real option" where
  "Math_abs a = (case a of None \<Rightarrow> None | Some v \<Rightarrow> Some \<bar>v\<bar>)"

definition Math_hypot :: "real option \<Rightarrow> real option \<Rightarrow> real option" where
  "Math_hypot a b =
     (case a of None \<Rightarrow> None
      | Some u \<Rightarrow> (case b of None \<Rightarrow> None | Some v \<Rightarrow> Some (sqrt (u * u + v * v))))"

text \<open>Truthiness of a \<^verbatim>\<open>string | null\<close>: \<^verbatim>\<open>null\<close> and the empty string are falsy.\<close>

definition truthy :: "string option \<Rightarrow> bool" where
  "truthy v = (case v of None \<Rightarrow> False | Some s \<Rightarrow> s \<noteq> [])"

subsection \<open>The pointer handlers\<close>

text \<open>
  What a handler reads of a Konva event: whether the target is the stage itself (the
  empty canvas), and \<^verbatim>\<open>stage.getPointerPosition()\<close>, which may be \<^verbatim>\<open>null\<close>.
\<close>

record MouseEvent =
  target_is_stage :: bool
  pointerPosition :: "(real \<times> real) option"

text \<open>\<^verbatim>\<open>handleMouseDown\<close>; the third argument is the result of \<^verbatim>\<open>uuidv4()\<close>.\<close>

definition handleMouseDown :: "AppState \<Rightarrow> MouseEvent \<Rightarrow> string \<Rightarrow> AppState" where
  "handleMouseDown st e uid =
     (if \<not> target_is_stage e then st
      else case pointerPosition e of
        None \<Rightarrow> st
      | Some (px, py) \<Rightarrow>
          let shape =
            (if tool st = rectangle then
               \<lparr> id_s = uid, type_s = rectangle, x_s = px, y_s = py,
                 stroke_s = strokeColor st, strokeWidth_s = strokeWidth st,
                 strokeStyle_s = strokeStyle st,
                 width_s = Some 0, height_s = Some 0, radius_s = None,
                 fill_s = fillColor st, x2_s = None, y2_s = None \<rparr>
             else if tool st = circle then
               \<lparr> id_s = uid, type_s = circle, x_s = px, y_s = py,
                 stroke_s = strokeColor st, strokeWidth_s = strokeWidth st,
                 strokeStyle_s = strokeStyle st,
                 width_s = None, height_s = None, radius_s = Some 0,
                 fill_s = fillColor st, x2_s = None, y2_s = None \<rparr>
             else
               \<lparr> id_s = uid, type_s = line, x_s = px, y_s = py,
                 stroke_s = strokeColor st, strokeWidth_s = strokeWidth st,
                 strokeStyle_s = strokeStyle st,
                 width_s = None, height_s = None, radius_s = None,
                 fill_s = None, x2_s = Some px, y2_s = Some py \<rparr>)
          in st\<lparr> newShape := Some shape, isDrawing := True, selectedId := None \<rparr>)"

text \<open>The body of \<^verbatim>\<open>handleMouseMove\<close> after its guards: the updated copy of the draft.\<close>

definition updated :: "Shape \<Rightarrow> real \<times> real \<Rightarrow> Shape" where
  "updated d point =
     (if type_s d = rectangle then
        d\<lparr> width_s := Some (fst point - x_s d), height_s := Some (snd point - y_s d) \<rparr>
      else if type_s d = circle then
        (let dx = fst point - x_s d; dy = snd point - y_s d
         in d\<lparr> radius_s := Some (sqrt (dx * dx + dy * dy)) \<rparr>)
      else
        d\<lparr> x2_s := Some (fst point), y2_s := Some (snd point) \<rparr>)"

definition handleMouseMove :: "AppState \<Rightarrow> MouseEvent \<Rightarrow> AppState" where
  "handleMouseMove st e =
     (if \<not> isDrawing st then st
      else case newShape st of
        None \<Rightarrow> st
      | Some d \<Rightarrow>
          (case pointerPosition e of
             None \<Rightarrow> st
           | Some point \<Rightarrow> st\<lparr> newShape := Some (updated d point) \<rparr>))"

text \<open>The size test of \<^verbatim>\<open>handleMouseUp\<close>: true when the draft is dropped.\<close>

definition too_small :: "Shape \<Rightarrow> bool" where
  "too_small d =
     ((type_s d = rectangle \<and>
         (js_lt (Math_abs (width_s d)) 5 \<or> js_lt (Math_abs (height_s d)) 5)) \<or>
      (type_s d = circle \<and> js_lt (radius_s d) 5) \<or>
      (type_s d = line \<and>
         js_lt (Math_hypot (js_sub (x2_s d) (x_s d)) (js_sub (y2_s d) (y_s d))) 5))"

text \<open>
  One axis of the rectangle branch:
  \<^verbatim>\<open>if (width < 0) { x += width; width = Math.abs(width); }\<close>
  (the test is false on no number, which is then left as it is).
\<close>

definition flip_axis :: "real \<Rightarrow> real option \<Rightarrow> real \<times> real option" where
  "flip_axis p ext =
     (case ext of
        None \<Rightarrow> (p, None)
      | Some w \<Rightarrow> if w < 0 then (p + w, Some \<bar>w\<bar>) else (p, Some w))"

definition handleMouseUp :: "AppState \<Rightarrow> AppState" where
  "handleMouseUp st =
     (if \<not> isDrawing st then st
      else case newShape st of
        None \<Rightarrow> st
      | Some d \<Rightarrow>
          if too_small d then st\<lparr> newShape := None, isDrawing := False \<rparr>
          else if type_s d = rectangle then
            (let (x, width) = flip_axis (x_s d) (width_s d);
                 (y, height) = flip_axis (y_s d) (height_s d)
             in st\<lparr> shapes := shapes st @
                         [d\<lparr> x_s := x, y_s := y, width_s := width, height_s := height \<rparr>],
                     newShape := None, isDrawing := False \<rparr>)
          else st\<lparr> shapes := shapes st @ [d], newShape := None, isDrawing := False \<rparr>)"

text \<open>
  The fields of its own variant are present in a draft: the handlers above keep this
  for the draft of the state.
\<close>

definition has_geometry :: "Shape \<Rightarrow> bool" where
  "has_geometry d =
     (case type_s d of
        rectangle \<Rightarrow> width_s d \<noteq> None \<and> height_s d \<noteq> None
      | circle \<Rightarrow> radius_s d \<noteq> None
      | line \<Rightarrow> x2_s d \<noteq> None \<and> y2_s d \<noteq> None)"

definition draft_ok :: "AppState \<Rightarrow> bool" where
  "draft_ok st = (case newShape st of None \<Rightarrow> True | Some d \<Rightarrow> has_geometry d)"

subsection \<open>Selection and style\<close>

text \<open>The \<^verbatim>\<open>onClick\<close> of a rendered shape.\<close>

definition onClick :: "AppState \<Rightarrow> Shape \<Rightarrow> AppState" where
  "onClick st shape =
     (let st1 = st\<lparr> selectedId := Some (id_s shape),
                     strokeColor := stroke_s shape,
                     strokeWidth := strokeWidth_s shape,
                     strokeStyle := strokeStyle_s shape \<rparr>
      in if type_s shape \<noteq> line then st1\<lparr> fillColor := fill_s shape \<rparr> else st1)"

text \<open>\<^verbatim>\<open>applyStyleToSelected\<close>; \<^verbatim>\<open>shapes.find\<close> is \<^const>\<open>find\<close>.\<close>

definition applyStyleToSelected :: "AppState \<Rightarrow> AppState" where
  "applyStyleToSelected st =
     (if \<not> truthy (selectedId st) then st
      else case selectedId st of
        None \<Rightarrow> st
      | Some sel \<Rightarrow>
          let updates = no_attrs\<lparr> stroke_a := Some (strokeColor st),
                                  strokeWidth_a := Some (strokeWidth st),
                                  strokeStyle_a := Some (strokeStyle st) \<rparr>;
              selectedShape = find (\<lambda>s. id_s s = sel) (shapes st);
              updates' =
                (case selectedShape of
                   None \<Rightarrow> updates
                 | Some s \<Rightarrow>
                     if type_s s \<noteq> line then updates\<lparr> fill_a := Some (fillColor st) \<rparr>
                     else updates)
          in updateShape st sel updates')"

text \<open>
  The \<^verbatim>\<open>onDragEnd\<close> of a rendered shape; \<open>pos\<close> is \<^verbatim>\<open>e.target.position()\<close>. The
  four sums of the line branch are sums of doubles. The reset
  \<^verbatim>\<open>e.target.position({ x: 0, y: 0 })\<close> of that branch acts on the canvas node and not on
  the state.
\<close>

definition onDragEnd :: "AppState \<Rightarrow> Shape \<Rightarrow> real \<times> real \<Rightarrow> AppState" where
  "onDragEnd st shape pos =
     (if type_s shape = line then
        (let dx = fst pos; dy = snd pos
         in updateShape st (id_s shape)
              (no_attrs\<lparr> x_a := Some (to_double (x_s shape + dx)),
                         y_a := Some (to_double (y_s shape + dy)),
                         x2_a := Some (js_add (x2_s shape) dx),
                         y2_a := Some (js_add (y2_s shape) dy) \<rparr>))
      else updateShape st (id_s shape) (no_attrs\<lparr> x_a := Some (fst pos), y_a := Some (snd pos) \<rparr>))"

subsection \<open>Persistence\<close>

text \<open>
  \<^verbatim>\<open>localStorage\<close> is a map from keys to strings. \<^verbatim>\<open>JSON.stringify\<close> and \<^verbatim>\<open>JSON.parse\<close>
  belong to the platform and are parameters of the model: \<open>parse s = None\<close> says that
  \<^verbatim>\<open>JSON.parse(s)\<close> throws its \<^verbatim>\<open>SyntaxError\<close>. The component trusts a parsed value to be
  a \<^verbatim>\<open>Shape[]\<close>, and so does the type of \<open>parse\<close>.
\<close>

type_synonym Storage = "string \<rightharpoonup> string"

datatype error = SyntaxError

text \<open>
  The initialiser of the \<^verbatim>\<open>shapes\<close> state:
  \<^verbatim>\<open>const saved = localStorage.getItem('drawing'); return saved ? JSON.parse(saved) : [];\<close>
  Nothing catches what \<^verbatim>\<open>JSON.parse\<close> throws.
\<close>

definition initialShapes :: "(string \<Rightarrow> Shape list option) \<Rightarrow> Storage \<Rightarrow> error + Shape list" where
  "initialShapes parse store =
     (case store ''drawing'' of
        None \<Rightarrow> Inr []
      | Some saved \<Rightarrow>
          if truthy (Some saved) then
            (case parse saved of None \<Rightarrow> Inl SyntaxError | Some v \<Rightarrow> Inr v)
          else Inr [])"

text \<open>
  \<^verbatim>\<open>saveDrawing\<close>: \<^verbatim>\<open>localStorage.setItem('drawing', JSON.stringify(shapes))\<close>, which
  is taken to succeed; the \<^verbatim>\<open>alert\<close> after it changes neither the state nor the store.
\<close>

definition saveDrawing :: "(Shape list \<Rightarrow> string) \<Rightarrow> AppState \<Rightarrow> Storage \<Rightarrow> Storage" where
  "saveDrawing stringify st store = store(''drawing'' \<mapsto> stringify (shapes st))"

subsection \<open>Sample values\<close>

text \<open>One shape of each kind, and a state that holds them and the component's defaults.\<close>

definition sample_rectangle :: Shape where
  "sample_rectangle =
     \<lparr> id_s = ''r1'', type_s = rectangle, x_s = 10, y_s = 10, stroke_s = ''#000000'',
       strokeWidth_s = 2, strokeStyle_s = solid, width_s = Some 100, height_s = Some 50,
       radius_s = None, fill_s = Some ''#ff0000'', x2_s = None, y2_s = None \<rparr>"

definition sample_circle :: Shape where
  "sample_circle =
     \<lparr> id_s = ''c1'', type_s = circle, x_s = 50, y_s = 60, stroke_s = ''#111111'',
       strokeWidth_s = 3, strokeStyle_s = dashed, width_s = None, height_s = None,
       radius_s = Some 30, fill_s = Some ''#00ff00'', x2_s = None, y2_s = None \<rparr>"

definition sample_line :: Shape where
  "sample_line =
     \<lparr> id_s = ''l1'', type_s = line, x_s = 1, y_s = 2, stroke_s = ''#0000ff'',
       strokeWidth_s = 1, strokeStyle_s = solid, width_s = None, height_s = None,
       radius_s = None, fill_s = None, x2_s = Some 31, y2_s = Some 42 \<rparr>"

definition sample_state :: AppState where
  "sample_state =
     \<lparr> shapes = [sample_rectangle, sample_circle, sample_line], tool = rectangle,
       selectedId = None, strokeColor = ''#000000'', fillColor = Some ''#88ccff'',
       strokeWidth = 2, strokeStyle = solid, isDrawing = False, newShape = None \<rparr>"

text \<open>
  A rectangle draft anchored at \<open>(100, 100)\<close> whose pointer has moved to \<open>(60, 130)\<close>,
  and the pointer events of the examples.
\<close>

definition sample_draft :: Shape where
  "sample_draft =
     \<lparr> id_s = ''n1'', type_s = rectangle, x_s = 100, y_s = 100, stroke_s = ''#000000'',
       strokeWidth_s = 2, strokeStyle_s = solid, width_s = Some (- 40), height_s = Some 30,
       radius_s = None, fill_s = Some ''#88ccff'', x2_s = None, y2_s = None \<rparr>"

definition pointer_at :: "real \<Rightarrow> real \<Rightarrow> MouseEvent" where
  "pointer_at px py = \<lparr> target_is_stage = True, pointerPosition = Some (px, py) \<rparr>"

definition drafting :: "Shape \<Rightarrow> AppState" where
  "drafting d = sample_state\<lparr> isDrawing := True, newShape := Some d \<rparr>"

text \<open>
  A line from \<open>(0.1, 0)\<close> to \<open>(0.2, 0)\<close>, alone in the list: its coordinates are the
  doubles that the literals \<^verbatim>\<open>0.1\<close> and \<^verbatim>\<open>0.2\<close> denote.
\<close>

definition tenth_line :: Shape where
  "tenth_line =
     \<lparr> id_s = ''t1'', type_s = line, x_s = 3602879701896397 / 36028797018963968, y_s = 0,
       stroke_s = ''#000000'', strokeWidth_s = 2, strokeStyle_s = solid, width_s = None,
       height_s = None, radius_s = None, fill_s = None,
       x2_s = Some (3602879701896397 / 18014398509481984), y2_s = Some 0 \<rparr>"

definition tenth_state :: AppState where
  "tenth_state = sample_state\<lparr> shapes := [tenth_line] \<rparr>"

text \<open>
  A parser for the examples: it reads the text of the empty array and rejects every
  other text, as \<^verbatim>\<open>JSON.parse\<close> rejects the text \<^verbatim>\<open>{\<close>.
\<close>

definition parse_empty_array :: "string \<Rightarrow> Shape list option" where
  "parse_empty_array s = (if s = ''[]'' then Some [] else None)"

section \<open>Properties of the handlers\<close>

subsection \<open>The draft keeps the fields of its variant\<close>

lemma updated_has_geometry: "has_geometry (updated d p)"
  by (cases "type_s d") (simp_all add: has_geometry_def updated_def Let_def)

lemma handleMouseDown_has_geometry:
  "draft_ok st \<Longrightarrow> draft_ok (handleMouseDown st e uid)"
  by (cases "tool st")
     (auto simp: draft_ok_def handleMouseDown_def has_geometry_def split: option.splits)

lemma handleMouseMove_has_geometry:
  "draft_ok st \<Longrightarrow> draft_ok (handleMouseMove st e)"
  by (auto simp: draft_ok_def handleMouseMove_def updated_has_geometry split: option.splits)

lemma handleMouseUp_has_geometry:
  "draft_ok st \<Longrightarrow> draft_ok (handleMouseUp st)"
  by (auto simp: draft_ok_def handleMouseUp_def split_beta split: option.splits)

subsection \<open>The ids of the shape list\<close>

text \<open>
  No handler changes the id of a shape of the list; pointer-up may append the draft,
  whose id comes from \<^verbatim>\<open>uuidv4()\<close>. So the ids of the list stay distinct as long as the
  generated ids are fresh.
\<close>

lemma updateShape_ids:
  "id_a attrs = None \<Longrightarrow> map id_s (shapes (updateShape st i attrs)) = map id_s (shapes st)"
  by (simp add: updateShape_def spread_def pick_def)

lemma applyStyleToSelected_ids:
  "map id_s (shapes (applyStyleToSelected st)) = map id_s (shapes st)"
  by (auto simp: applyStyleToSelected_def Let_def updateShape_ids no_attrs_def
      split: option.splits)

lemma onDragEnd_ids:
  "map id_s (shapes (onDragEnd st shape pos)) = map id_s (shapes st)"
  by (simp add: onDragEnd_def Let_def updateShape_ids no_attrs_def)

lemma handleMouseUp_ids:
  "map id_s (shapes (handleMouseUp st)) = map id_s (shapes st) \<or>
   (\<exists>d. newShape st = Some d \<and>
      map id_s (shapes (handleMouseUp st)) = map id_s (shapes st) @ [id_s d])"
  by (auto simp: handleMouseUp_def split_beta split: option.splits)

subsection \<open>updateShape\<close>

text \<open>
  Claim C10. \<^verbatim>\<open>updateShape\<close> keeps the length of the shape list and the position of
  every shape in it: the shape at a position is the old one, spread with the attributes
  when it carries the given id and untouched when it carries another id. When no shape
  carries the id the state, and so the whole list, is what it was.
\<close>

theorem updateShape_frame:
  "length (shapes (updateShape st i attrs)) = length (shapes st) \<and>
   (\<forall>k < length (shapes st).
      shapes (updateShape st i attrs) ! k =
        (if id_s (shapes st ! k) = i then spread (shapes st ! k) attrs else shapes st ! k)) \<and>
   (\<forall>k < length (shapes st).
      id_s (shapes st ! k) \<noteq> i \<longrightarrow> shapes (updateShape st i attrs) ! k = shapes st ! k) \<and>
   ((\<forall>s \<in> set (shapes st). id_s s \<noteq> i) \<longrightarrow> updateShape st i attrs = st)"
proof -
  have same: "(\<forall>s \<in> set xs. id_s s \<noteq> i) \<Longrightarrow>
      map (\<lambda>s. if id_s s = i then spread s attrs else s) xs = xs" for xs
    by (induction xs) auto
  show ?thesis
    by (simp add: updateShape_def same)
qed

theorem updateShape_frame_witness:
  "length (shapes (updateShape sample_state ''l1'' (no_attrs\<lparr> x_a := Some 7 \<rparr>))) = 3 \<and>
   shapes (updateShape sample_state ''l1'' (no_attrs\<lparr> x_a := Some 7 \<rparr>)) ! 0 = sample_rectangle \<and>
   shapes (updateShape sample_state ''l1'' (no_attrs\<lparr> x_a := Some 7 \<rparr>)) ! 2 =
     sample_line\<lparr> x_s := 7 \<rparr> \<and>
   updateShape sample_state ''zz'' (no_attrs\<lparr> x_a := Some 7 \<rparr>) = sample_state"
proof -
  have len: "length (shapes sample_state) = 3"
    by (simp add: sample_state_def)
  have ids: "\<forall>s \<in> set (shapes sample_state). id_s s \<noteq> ''zz''"
    by (simp add: sample_state_def sample_rectangle_def sample_circle_def sample_line_def)
  have sp: "spread sample_line (no_attrs\<lparr> x_a := Some 7 \<rparr>) = sample_line\<lparr> x_s := 7 \<rparr>"
    by (simp add: spread_def no_attrs_def pick_def sample_line_def)
  note f = updateShape_frame [where st = sample_state and i = "''l1''"
      and attrs = "no_attrs\<lparr> x_a := Some 7 \<rparr>"]
  note g = updateShape_frame [where st = sample_state and i = "''zz''"
      and attrs = "no_attrs\<lparr> x_a := Some 7 \<rparr>"]
  from f have at: "\<And>k. k < 3 \<Longrightarrow>
      shapes (updateShape sample_state ''l1'' (no_attrs\<lparr> x_a := Some 7 \<rparr>)) ! k =
        (if id_s (shapes sample_state ! k) = ''l1''
         then spread (shapes sample_state ! k) (no_attrs\<lparr> x_a := Some 7 \<rparr>)
         else shapes sample_state ! k)"
    by (simp add: len)
  have "shapes (updateShape sample_state ''l1'' (no_attrs\<lparr> x_a := Some 7 \<rparr>)) ! 0 = sample_rectangle"
    using at [of 0] by (simp add: sample_state_def sample_rectangle_def)
  moreover
  have "shapes (updateShape sample_state ''l1'' (no_attrs\<lparr> x_a := Some 7 \<rparr>)) ! 2 =
      sample_line\<lparr> x_s := 7 \<rparr>"
    using at [of 2] sp by (simp add: sample_state_def) (simp add: sample_line_def)
  moreover
  from f have "length (shapes (updateShape sample_state ''l1'' (no_attrs\<lparr> x_a := Some 7 \<rparr>))) = 3"
    by (simp add: len)
  moreover
  from g ids have "updateShape sample_state ''zz'' (no_attrs\<lparr> x_a := Some 7 \<rparr>) = sample_state"
    by blast
  ultimately show ?thesis by simp
qed

subsection \<open>The draft builder\<close>

text \<open>
  Claim C5. A pointer-down on the empty canvas (the target is the stage, the pointer
  position is known) at \<open>(px, py)\<close> always yields a draft: the new state is the old one
  with drafting switched on, the selection cleared and a draft that carries the generated
  id, the kind of the selected tool, the anchor \<open>(px, py)\<close>, the current stroke settings
  and zero extent: width and height 0 and the current fill for a rectangle, radius 0 and
  the current fill for a circle, second endpoint \<open>(px, py)\<close> and no fill for a line.
\<close>

theorem handleMouseDown_draft:
  assumes "target_is_stage e" and "pointerPosition e = Some (px, py)"
  shows "\<exists>d. handleMouseDown st e uid =
            st\<lparr> newShape := Some d, isDrawing := True, selectedId := None \<rparr> \<and>
          id_s d = uid \<and> type_s d = tool st \<and> x_s d = px \<and> y_s d = py \<and>
          stroke_s d = strokeColor st \<and> strokeWidth_s d = strokeWidth st \<and>
          strokeStyle_s d = strokeStyle st \<and>
          (tool st = rectangle \<longrightarrow>
             width_s d = Some 0 \<and> height_s d = Some 0 \<and> fill_s d = fillColor st \<and>
             radius_s d = None \<and> x2_s d = None \<and> y2_s d = None) \<and>
          (tool st = circle \<longrightarrow>
             radius_s d = Some 0 \<and> fill_s d = fillColor st \<and>
             width_s d = None \<and> height_s d = None \<and> x2_s d = None \<and> y2_s d = None) \<and>
          (tool st = line \<longrightarrow>
             x2_s d = Some px \<and> y2_s d = Some py \<and> fill_s d = None \<and>
             width_s d = None \<and> height_s d = None \<and> radius_s d = None)"
  using assms
  by (cases "tool st")
     (simp_all add: handleMouseDown_def, (rule exI, rule conjI, rule refl, simp)+)

theorem handleMouseDown_draft_witness:
  "handleMouseDown sample_state (pointer_at 100 100) ''n1'' =
     sample_state\<lparr> newShape := Some (sample_draft\<lparr> width_s := Some 0, height_s := Some 0 \<rparr>),
                   isDrawing := True, selectedId := None \<rparr>"
proof -
  have "target_is_stage (pointer_at 100 100)"
    and "pointerPosition (pointer_at 100 100) = Some (100, 100)"
    by (simp_all add: pointer_at_def)
  from handleMouseDown_draft [OF this, of sample_state "''n1''"]
  obtain d where h: "handleMouseDown sample_state (pointer_at 100 100) ''n1'' =
        sample_state\<lparr> newShape := Some d, isDrawing := True, selectedId := None \<rparr>"
    and f: "id_s d = ''n1''" "type_s d = tool sample_state" "x_s d = 100" "y_s d = 100"
      "stroke_s d = strokeColor sample_state" "strokeWidth_s d = strokeWidth sample_state"
      "strokeStyle_s d = strokeStyle sample_state"
    and r: "tool sample_state = rectangle \<longrightarrow>
        width_s d = Some 0 \<and> height_s d = Some 0 \<and> fill_s d = fillColor sample_state \<and>
        radius_s d = None \<and> x2_s d = None \<and> y2_s d = None"
    by blast
  have "tool sample_state = rectangle" by (simp add: sample_state_def)
  with f r have "d = sample_draft\<lparr> width_s := Some 0, height_s := Some 0 \<rparr>"
    by (cases d) (simp add: sample_draft_def sample_state_def)
  with h show ?thesis by simp
qed

subsection \<open>The draft updater\<close>







subsection \<open>The commit policy: the threshold\<close>

lemma too_small_rectangle:
  "type_s d = rectangle \<Longrightarrow> width_s d = Some w \<Longrightarrow> height_s d = Some h \<Longrightarrow>
   too_small d = (\<not> (5 \<le> \<bar>w\<bar> \<and> 5 \<le> \<bar>h\<bar>))"
  by (auto simp: too_small_def js_lt_def Math_abs_def)

lemma too_small_circle:
  "type_s d = circle \<Longrightarrow> radius_s d = Some r \<Longrightarrow> too_small d = (r < 5)"
  by (simp add: too_small_def js_lt_def)

lemma too_small_line:
  "type_s d = line \<Longrightarrow> x2_s d = Some a \<Longrightarrow> y2_s d = Some b \<Longrightarrow>
   too_small d = (sqrt ((a - x_s d)\<^sup>2 + (b - y_s d)\<^sup>2) < 5)"
  by (simp add: too_small_def js_lt_def js_sub_def Math_hypot_def power2_eq_square)


lemma handleMouseUp_commit_rectangle:
  "isDrawing st \<Longrightarrow> newShape st = Some d \<Longrightarrow> \<not> too_small d \<Longrightarrow> type_s d = rectangle \<Longrightarrow>
   handleMouseUp st =
     st\<lparr> shapes := shapes st @
            [d\<lparr> x_s := fst (flip_axis (x_s d) (width_s d)),
                y_s := fst (flip_axis (y_s d) (height_s d)),
                width_s := snd (flip_axis (x_s d) (width_s d)),
                height_s := snd (flip_axis (y_s d) (height_s d)) \<rparr>],
         newShape := None, isDrawing := False \<rparr>"
  by (simp add: handleMouseUp_def split_beta)

lemma handleMouseUp_commit_other:
  "isDrawing st \<Longrightarrow> newShape st = Some d \<Longrightarrow> \<not> too_small d \<Longrightarrow> type_s d \<noteq> rectangle \<Longrightarrow>
   handleMouseUp st = st\<lparr> shapes := shapes st @ [d], newShape := None, isDrawing := False \<rparr>"
  by (simp add: handleMouseUp_def)



subsection \<open>The commit policy: normalisation\<close>

text \<open>
  Claim C2. A rectangle draft that reaches the threshold is committed with non-negative
  extent \<open>\<bar>width\<bar>\<close>, \<open>\<bar>height\<bar>\<close>; a negative width (height) moves \<open>x\<close> (\<open>y\<close>) by
  that amount, so the stored anchor is the smaller coordinate of the two corners; every
  other field of the draft is kept. A circle or a line that reaches the threshold is
  committed as it is.
\<close>

theorem handleMouseUp_normalises:
  assumes "isDrawing st" and "newShape st = Some d"
  shows
   "(type_s d = rectangle \<and> width_s d = Some w \<and> height_s d = Some h \<and>
       5 \<le> \<bar>w\<bar> \<and> 5 \<le> \<bar>h\<bar> \<longrightarrow>
       shapes (handleMouseUp st) = shapes st @
          [d\<lparr> x_s := (if w < 0 then x_s d + w else x_s d),
              y_s := (if h < 0 then y_s d + h else y_s d),
              width_s := Some \<bar>w\<bar>, height_s := Some \<bar>h\<bar> \<rparr>] \<and>
       (if w < 0 then x_s d + w else x_s d) = min (x_s d) (x_s d + w) \<and>
       (if h < 0 then y_s d + h else y_s d) = min (y_s d) (y_s d + h)) \<and>
    (type_s d = circle \<and> radius_s d = Some r \<and> 5 \<le> r \<longrightarrow>
       shapes (handleMouseUp st) = shapes st @ [d]) \<and>
    (type_s d = line \<and> x2_s d = Some a \<and> y2_s d = Some b \<and>
       5 \<le> sqrt ((a - x_s d)\<^sup>2 + (b - y_s d)\<^sup>2) \<longrightarrow>
       shapes (handleMouseUp st) = shapes st @ [d])"
proof (intro conjI impI)
  assume r: "type_s d = rectangle \<and> width_s d = Some w \<and> height_s d = Some h \<and>
       5 \<le> \<bar>w\<bar> \<and> 5 \<le> \<bar>h\<bar>"
  then have "\<not> too_small d" by (simp add: too_small_rectangle)
  with assms r show "shapes (handleMouseUp st) = shapes st @
          [d\<lparr> x_s := (if w < 0 then x_s d + w else x_s d),
              y_s := (if h < 0 then y_s d + h else y_s d),
              width_s := Some \<bar>w\<bar>, height_s := Some \<bar>h\<bar> \<rparr>]"
    by (simp add: handleMouseUp_commit_rectangle flip_axis_def)
  show "(if w < 0 then x_s d + w else x_s d) = min (x_s d) (x_s d + w)" by simp
  show "(if h < 0 then y_s d + h else y_s d) = min (y_s d) (y_s d + h)" by simp
next
  assume c: "type_s d = circle \<and> radius_s d = Some r \<and> 5 \<le> r"
  then have "\<not> too_small d" by (simp add: too_small_circle)
  with assms c show "shapes (handleMouseUp st) = shapes st @ [d]"
    by (simp add: handleMouseUp_commit_other)
next
  assume l: "type_s d = line \<and> x2_s d = Some a \<and> y2_s d = Some b \<and>
       5 \<le> sqrt ((a - x_s d)\<^sup>2 + (b - y_s d)\<^sup>2)"
  then have "\<not> too_small d" by (simp add: too_small_line)
  with assms l show "shapes (handleMouseUp st) = shapes st @ [d]"
    by (simp add: handleMouseUp_commit_other)
qed

theorem handleMouseUp_normalises_witness:
  "shapes (handleMouseUp (drafting sample_draft)) =
     [sample_rectangle, sample_circle, sample_line,
      \<lparr> id_s = ''n1'', type_s = rectangle, x_s = 60, y_s = 100, stroke_s = ''#000000'',
        strokeWidth_s = 2, strokeStyle_s = solid, width_s = Some 40, height_s = Some 30,
        radius_s = None, fill_s = Some ''#88ccff'', x2_s = None, y2_s = None \<rparr>] \<and>
   shapes (handleMouseUp (drafting sample_circle)) =
     [sample_rectangle, sample_circle, sample_line, sample_circle]"
proof -
  have dr: "isDrawing (drafting d)" "newShape (drafting d) = Some d"
    "shapes (drafting d) = [sample_rectangle, sample_circle, sample_line]" for d
    by (simp_all add: drafting_def sample_state_def)
  have r: "type_s sample_draft = rectangle \<and> width_s sample_draft = Some (- 40) \<and>
      height_s sample_draft = Some 30 \<and> (5::real) \<le> \<bar>- 40\<bar> \<and> (5::real) \<le> \<bar>30\<bar>"
    by (simp add: sample_draft_def)
  have c: "type_s sample_circle = circle \<and> radius_s sample_circle = Some 30 \<and> (5::real) \<le> 30"
    by (simp add: sample_circle_def)
  from handleMouseUp_normalises [where st = "drafting sample_draft" and d = sample_draft and w = "- 40" and h = 30, OF dr(1) dr(2)] r
  have "shapes (handleMouseUp (drafting sample_draft)) = shapes (drafting sample_draft) @
      [sample_draft\<lparr> x_s := (if (- 40 :: real) < 0 then x_s sample_draft + (- 40) else x_s sample_draft),
          y_s := (if (30::real) < 0 then y_s sample_draft + 30 else y_s sample_draft),
          width_s := Some \<bar>- 40\<bar>, height_s := Some \<bar>30\<bar> \<rparr>]"
    by blast
  then have 1: "shapes (handleMouseUp (drafting sample_draft)) =
     [sample_rectangle, sample_circle, sample_line,
      \<lparr> id_s = ''n1'', type_s = rectangle, x_s = 60, y_s = 100, stroke_s = ''#000000'',
        strokeWidth_s = 2, strokeStyle_s = solid, width_s = Some 40, height_s = Some 30,
        radius_s = None, fill_s = Some ''#88ccff'', x2_s = None, y2_s = None \<rparr>]"
    by (simp add: dr) (simp add: sample_draft_def)
  from handleMouseUp_normalises [where st = "drafting sample_circle" and d = sample_circle and r = 30, OF dr(1) dr(2)] c
  have "shapes (handleMouseUp (drafting sample_circle)) =
      shapes (drafting sample_circle) @ [sample_circle]"
    by blast
  with 1 show ?thesis by (simp add: dr)
qed

subsection \<open>Applying the pending style\<close>







subsection \<open>Selecting a shape\<close>

text \<open>
  Claim C8, amended. Selecting a shape sets \<^verbatim>\<open>selectedId\<close> to its id and copies its
  stroke colour, stroke width and stroke style into the pending style, and its fill unless
  it is a line, in which case the pending fill stays; nothing else of the state changes.
  After selecting \<open>a\<close> and then \<open>b\<close>, the selected id and the pending stroke settings are
  those of \<open>b\<close>; when \<open>b\<close> is not a line the pending fill is that of \<open>b\<close> and the state is
  the one that selecting \<open>b\<close> alone gives; when \<open>b\<close> is a line the pending fill is what it
  was after selecting \<open>a\<close>.
\<close>

theorem onClick_select:
  "selectedId (onClick st s) = Some (id_s s) \<and>
   strokeColor (onClick st s) = stroke_s s \<and>
   strokeWidth (onClick st s) = strokeWidth_s s \<and>
   strokeStyle (onClick st s) = strokeStyle_s s \<and>
   (type_s s \<noteq> line \<longrightarrow> fillColor (onClick st s) = fill_s s) \<and>
   (type_s s = line \<longrightarrow> fillColor (onClick st s) = fillColor st) \<and>
   shapes (onClick st s) = shapes st \<and> tool (onClick st s) = tool st \<and>
   isDrawing (onClick st s) = isDrawing st \<and> newShape (onClick st s) = newShape st \<and>
   selectedId (onClick (onClick st a) b) = Some (id_s b) \<and>
   strokeColor (onClick (onClick st a) b) = stroke_s b \<and>
   strokeWidth (onClick (onClick st a) b) = strokeWidth_s b \<and>
   strokeStyle (onClick (onClick st a) b) = strokeStyle_s b \<and>
   (type_s b \<noteq> line \<longrightarrow> fillColor (onClick (onClick st a) b) = fill_s b \<and>
      onClick (onClick st a) b = onClick st b) \<and>
   (type_s b = line \<longrightarrow> fillColor (onClick (onClick st a) b) = fillColor (onClick st a))"
  by (simp add: onClick_def Let_def)

theorem onClick_select_witness:
  "onClick (onClick sample_state sample_line) sample_circle = onClick sample_state sample_circle \<and>
   fillColor (onClick (onClick sample_state sample_line) sample_circle) = Some ''#00ff00'' \<and>
   fillColor (onClick (onClick sample_state sample_circle) sample_line) = Some ''#00ff00'' \<and>
   strokeColor (onClick (onClick sample_state sample_circle) sample_line) = ''#0000ff'' \<and>
   selectedId (onClick (onClick sample_state sample_circle) sample_line) = Some ''l1''"
  using onClick_select [where st = sample_state and s = sample_line
                          and a = sample_line and b = sample_circle]
    onClick_select [where st = sample_state and s = sample_circle
                      and a = sample_circle and b = sample_line]
  by (simp add: sample_circle_def sample_line_def)

text \<open>
  Against claim C8 as stated: after selecting the sample rectangle and then the sample
  line, the pending fill colour is the rectangle's fill, which is not a style of the line,
  and the state differs from the state that selecting the line alone gives.
\<close>

theorem onClick_fill_kept_counterexample:
  "fillColor (onClick (onClick sample_state sample_rectangle) sample_line) = fill_s sample_rectangle \<and>
   fill_s sample_rectangle \<noteq> fill_s sample_line \<and>
   fillColor (onClick sample_state sample_line) = Some ''#88ccff'' \<and>
   onClick (onClick sample_state sample_rectangle) sample_line \<noteq> onClick sample_state sample_line"
  by (simp add: onClick_def sample_state_def sample_rectangle_def sample_line_def Let_def)

subsection \<open>Rounding to a double\<close>

lemma bits_bounds: "0 < n \<Longrightarrow> 2 ^ (bits n - 1) \<le> n \<and> n < 2 ^ bits n"
proof (induction n rule: bits.induct)
  case (1 n)
  show ?case
  proof (cases "n div 2 = 0")
    case True
    with 1 have "n = 1" by (simp add: div_eq_0_iff)
    then show ?thesis by (simp add: bits.simps)
  next
    case False
    with 1 have ih: "2 ^ (bits (n div 2) - 1) \<le> n div 2 \<and> n div 2 < 2 ^ bits (n div 2)"
      by simp
    from False have pos: "0 < bits (n div 2)" by (simp add: bits.simps [of "n div 2"])
    have b: "bits n = Suc (bits (n div 2))" using 1 by (simp add: bits.simps [of n])
    from pos have half: "(2::nat) ^ (bits n - 1) = 2 * 2 ^ (bits (n div 2) - 1)"
      by (cases "bits (n div 2)") (simp_all add: b)
    have d: "2 * (n div 2) \<le> n" "n < 2 * (n div 2) + 2" by simp_all
    from ih d(1) have "2 * 2 ^ (bits (n div 2) - 1) \<le> n" by linarith
    then have lo: "2 ^ (bits n - 1) \<le> n" using half by simp
    from ih d(2) have "n < 2 * 2 ^ bits (n div 2)" by linarith
    with lo b show ?thesis by simp
  qed
qed

lemma pow2_powr: "pow2 e = 2 powr (of_int e)"
  by (simp add: pow2_def powr_int)

lemma pow2_pos: "0 < pow2 e"
  by (simp add: pow2_powr)

lemma pow2_add: "pow2 (a + b) = pow2 a * pow2 b"
  by (simp add: pow2_powr powr_add)

lemma pow2_nat: "pow2 (int n) = 2 ^ n"
  by (simp add: pow2_def)

lemma pow2_neg_nat: "pow2 (- int n) = 1 / 2 ^ n"
  by (simp add: pow2_powr powr_minus_divide powr_realpow)

lemma real_pow2_le: "(2::nat) ^ k \<le> n \<Longrightarrow> (2::real) ^ k \<le> real n"
  by (metis of_nat_le_iff of_nat_numeral of_nat_power)

lemma real_le_pow2: "n \<le> (2::nat) ^ k \<Longrightarrow> real n \<le> (2::real) ^ k"
  by (metis of_nat_le_iff of_nat_numeral of_nat_power)

text \<open>\<open>exponent r\<close> is the binary exponent of \<open>r\<close>.\<close>

lemma exponent_bounds:
  assumes "r \<noteq> 0"
  shows "pow2 (exponent r) \<le> \<bar>r\<bar> \<and> \<bar>r\<bar> < pow2 (exponent r + 1)"
proof (cases "1 \<le> \<bar>r\<bar>")
  case True
  define n where "n = nat \<lfloor>\<bar>r\<bar>\<rfloor>"
  from True have n: "0 < n" by (simp add: n_def)
  from True have rn: "real n \<le> \<bar>r\<bar>" "\<bar>r\<bar> < real (Suc n)"
    unfolding n_def by (simp, simp, linarith)
  from bits_bounds [OF n] have lo: "2 ^ (bits n - 1) \<le> n" and hi: "n < 2 ^ bits n"
    by simp_all
  from hi have bp: "0 < bits n" using n by (cases "bits n") simp_all
  have e1: "exponent r + 1 = int (bits n)"
    using True by (simp add: exponent_def n_def)
  then have e: "exponent r = int (bits n - 1)" using bp by simp
  from real_pow2_le [OF lo] rn(1) have "pow2 (exponent r) \<le> \<bar>r\<bar>"
    by (simp only: e pow2_nat)
  moreover
  from hi have "Suc n \<le> 2 ^ bits n" by (rule Suc_leI)
  from real_le_pow2 [OF this] rn(2) have "\<bar>r\<bar> < pow2 (exponent r + 1)"
    by (simp only: e1 pow2_nat)
  ultimately show ?thesis ..
next
  case False
  with assms have r: "0 < \<bar>r\<bar>" "\<bar>r\<bar> < 1" by simp_all
  define m where "m = nat (\<lceil>1 / \<bar>r\<bar>\<rceil> - 1)"
  from r have inv: "1 < 1 / \<bar>r\<bar>" by simp
  then have c: "2 \<le> \<lceil>1 / \<bar>r\<bar>\<rceil>" by linarith
  then have m: "0 < m" by (simp add: m_def)
  from c have rm: "real m < 1 / \<bar>r\<bar>" "1 / \<bar>r\<bar> \<le> real (Suc m)"
    unfolding m_def by (simp, linarith, simp, linarith)
  have e: "exponent r = - int (bits m)" using False by (simp add: exponent_def m_def)
  from bits_bounds [OF m] have lo: "2 ^ (bits m - 1) \<le> m" and hi: "m < 2 ^ bits m"
    by simp_all
  from hi have bp: "0 < bits m" using m by (cases "bits m") simp_all
  from hi have "Suc m \<le> 2 ^ bits m" by (rule Suc_leI)
  from real_le_pow2 [OF this] rm(2) have "1 / \<bar>r\<bar> \<le> 2 ^ bits m" by linarith
  with r have "1 / 2 ^ bits m \<le> \<bar>r\<bar>"
    by (simp add: field_simps)
  then have low: "pow2 (exponent r) \<le> \<bar>r\<bar>"
    by (simp only: e pow2_neg_nat)
  from bp have e1: "exponent r + 1 = - int (bits m - 1)" by (simp add: e)
  from real_pow2_le [OF lo] rm(1) have "(2::real) ^ (bits m - 1) < 1 / \<bar>r\<bar>" by linarith
  with r have "\<bar>r\<bar> < 1 / 2 ^ (bits m - 1)"
    by (simp add: field_simps)
  then have "\<bar>r\<bar> < pow2 (exponent r + 1)"
    by (simp only: e1 pow2_neg_nat)
  with low show ?thesis ..
qed

lemma round_half_even_error: "\<bar>of_int (round_half_even t) - t\<bar> \<le> 1 / 2"
  by (auto simp: round_half_even_def Let_def)

text \<open>Rounding moves a number by at most half a unit in the last place.\<close>

lemma to_double_error: "\<bar>to_double r - r\<bar> \<le> \<bar>r\<bar> / 2 ^ 53"
proof (cases "r = 0")
  case True
  then show ?thesis by (simp add: to_double_def)
next
  case False
  define q where "q = pow2 (exponent r - 52)"
  have q: "0 < q" by (simp add: q_def pow2_pos)
  have "to_double r - r = (of_int (round_half_even (r / q)) - r / q) * q"
    using False q by (simp add: to_double_def Let_def q_def [symmetric] field_simps)
  then have "\<bar>to_double r - r\<bar> = \<bar>of_int (round_half_even (r / q)) - r / q\<bar> * q"
    using q by (simp add: abs_mult)
  also have "\<dots> \<le> 1 / 2 * q"
    using q round_half_even_error [of "r / q"] by (simp add: mult_right_mono)
  also have "q = pow2 (exponent r) * pow2 (- 52)"
    unfolding q_def using pow2_add [of "exponent r" "- 52"] by simp
  also have "pow2 (- 52) = 1 / 2 ^ 52" by (simp add: pow2_def)
  also have "1 / 2 * (pow2 (exponent r) * (1 / 2 ^ 52)) = pow2 (exponent r) / 2 ^ 53" by simp
  also have "\<dots> \<le> \<bar>r\<bar> / 2 ^ 53"
    using exponent_bounds [OF False] by (simp add: divide_right_mono)
  finally show ?thesis .
qed

lemma offset_error:
  "\<bar>(to_double (a + p) - to_double (x + p)) - (a - x)\<bar> \<le> (\<bar>a + p\<bar> + \<bar>x + p\<bar>) / 2 ^ 53"
proof -
  have "\<bar>(to_double (a + p) - to_double (x + p)) - (a - x)\<bar> =
      \<bar>(to_double (a + p) - (a + p)) - (to_double (x + p) - (x + p))\<bar>"
    by simp
  also have "\<dots> \<le> \<bar>to_double (a + p) - (a + p)\<bar> + \<bar>to_double (x + p) - (x + p)\<bar>"
    by (rule abs_triangle_ineq4)
  also have "\<dots> \<le> \<bar>a + p\<bar> / 2 ^ 53 + \<bar>x + p\<bar> / 2 ^ 53"
    by (rule add_mono) (rule to_double_error)+
  finally show ?thesis by (simp add: add_divide_distrib)
qed

text \<open>
  The doubles of the literals \<^verbatim>\<open>0.1\<close>, \<^verbatim>\<open>0.2\<close>, \<^verbatim>\<open>0.3\<close>, \<^verbatim>\<open>0.4\<close>, and the sums
  \<^verbatim>\<open>0.1 + 0.3\<close> and \<^verbatim>\<open>0.2 + 0.3\<close> of the program.
\<close>

lemma double_literals:
  "to_double (1 / 10) = 3602879701896397 / 36028797018963968"
  "to_double (2 / 10) = 3602879701896397 / 18014398509481984"
  "to_double (3 / 10) = 5404319552844595 / 18014398509481984"
  "to_double (4 / 10) = 7205759403792794 / 18014398509481984"
  by (simp_all add: to_double_def exponent_def bits.simps pow2_def round_half_even_def Let_def)

lemma double_sums:
  "to_double (3602879701896397 / 36028797018963968 + 5404319552844595 / 18014398509481984)
     = 7205759403792794 / 18014398509481984"
  "to_double (3602879701896397 / 18014398509481984 + 5404319552844595 / 18014398509481984)
     = 1 / 2"
  by (simp_all add: to_double_def exponent_def bits.simps pow2_def round_half_even_def Let_def)

lemma double_small_integers:
  "to_double 6 = 6" "to_double 9 = 9" "to_double 36 = 36" "to_double 49 = 49"
  by (simp_all add: to_double_def exponent_def bits.simps pow2_def round_half_even_def Let_def)

subsection \<open>Dragging a shape\<close>

lemma spread_xy:
  "spread s (no_attrs\<lparr> x_a := Some a, y_a := Some b \<rparr>) = s\<lparr> x_s := a, y_s := b \<rparr>"
  by (cases s) (simp add: spread_def no_attrs_def pick_def)

lemma spread_xy_x2y2:
  "spread s (no_attrs\<lparr> x_a := Some a, y_a := Some b, x2_a := Some c, y2_a := Some e \<rparr>)
     = s\<lparr> x_s := a, y_s := b, x2_s := c, y2_s := e \<rparr>"
  by (cases s) (simp add: spread_def no_attrs_def pick_def)

text \<open>
  Claim C9, amended. A drag-end of a shape of the list keeps the length of the list and
  every shape with another id. A dragged line has the first component of the reported
  position added to \<open>x\<close> and \<open>x2\<close> and the second to \<open>y\<close> and \<open>y2\<close>, each sum rounded to
  the nearest double, and nothing else changed; so the differences \<open>x2 - x\<close> and \<open>y2 - y\<close>
  are kept up to that rounding: they move by at most \<open>2\<^sup>-\<^sup>5\<^sup>3\<close> times the sum of the
  magnitudes of the two exact sums. A dragged rectangle or circle has \<open>x\<close> and \<open>y\<close> set to
  the reported position and nothing else changed: width, height and radius are kept.
\<close>

theorem onDragEnd_translates:
  "length (shapes (onDragEnd st shape (px, py))) = length (shapes st) \<and>
   (\<forall>k < length (shapes st).
      (id_s (shapes st ! k) \<noteq> id_s shape \<longrightarrow>
         shapes (onDragEnd st shape (px, py)) ! k = shapes st ! k) \<and>
      (shapes st ! k = shape \<and> type_s shape = line \<longrightarrow>
         shapes (onDragEnd st shape (px, py)) ! k =
           shape\<lparr> x_s := to_double (x_s shape + px), y_s := to_double (y_s shape + py),
                  x2_s := js_add (x2_s shape) px, y2_s := js_add (y2_s shape) py \<rparr> \<and>
         (\<forall>a. x2_s shape = Some a \<longrightarrow>
            x2_s (shapes (onDragEnd st shape (px, py)) ! k) = Some (to_double (a + px)) \<and>
            \<bar>(to_double (a + px) - x_s (shapes (onDragEnd st shape (px, py)) ! k))
               - (a - x_s shape)\<bar> \<le> (\<bar>a + px\<bar> + \<bar>x_s shape + px\<bar>) / 2 ^ 53) \<and>
         (\<forall>b. y2_s shape = Some b \<longrightarrow>
            y2_s (shapes (onDragEnd st shape (px, py)) ! k) = Some (to_double (b + py)) \<and>
            \<bar>(to_double (b + py) - y_s (shapes (onDragEnd st shape (px, py)) ! k))
               - (b - y_s shape)\<bar> \<le> (\<bar>b + py\<bar> + \<bar>y_s shape + py\<bar>) / 2 ^ 53)) \<and>
      (shapes st ! k = shape \<and> type_s shape \<noteq> line \<longrightarrow>
         shapes (onDragEnd st shape (px, py)) ! k = shape\<lparr> x_s := px, y_s := py \<rparr> \<and>
         width_s (shapes (onDragEnd st shape (px, py)) ! k) = width_s shape \<and>
         height_s (shapes (onDragEnd st shape (px, py)) ! k) = height_s shape \<and>
         radius_s (shapes (onDragEnd st shape (px, py)) ! k) = radius_s shape))"
proof (intro conjI allI impI)
  show "length (shapes (onDragEnd st shape (px, py))) = length (shapes st)"
    by (simp add: onDragEnd_def updateShape_def Let_def)
next
  fix k
  assume k: "k < length (shapes st)"
  let ?r = "shapes (onDragEnd st shape (px, py)) ! k"
  { assume "id_s (shapes st ! k) \<noteq> id_s shape"
    with k show "?r = shapes st ! k"
      by (simp add: onDragEnd_def updateShape_def Let_def) }
  { assume l: "shapes st ! k = shape \<and> type_s shape = line"
    with k show moved: "?r = shape\<lparr> x_s := to_double (x_s shape + px),
        y_s := to_double (y_s shape + py),
        x2_s := js_add (x2_s shape) px, y2_s := js_add (y2_s shape) py \<rparr>"
      by (simp add: onDragEnd_def updateShape_def Let_def spread_xy_x2y2)
    { fix a
      assume a: "x2_s shape = Some a"
      then show "x2_s ?r = Some (to_double (a + px))"
        by (simp add: moved js_add_def)
      show "\<bar>(to_double (a + px) - x_s ?r) - (a - x_s shape)\<bar>
          \<le> (\<bar>a + px\<bar> + \<bar>x_s shape + px\<bar>) / 2 ^ 53"
        using offset_error [of a px "x_s shape"] by (simp add: moved) }
    { fix b
      assume b: "y2_s shape = Some b"
      then show "y2_s ?r = Some (to_double (b + py))"
        by (simp add: moved js_add_def)
      show "\<bar>(to_double (b + py) - y_s ?r) - (b - y_s shape)\<bar>
          \<le> (\<bar>b + py\<bar> + \<bar>y_s shape + py\<bar>) / 2 ^ 53"
        using offset_error [of b py "y_s shape"] by (simp add: moved) } }
  { assume r: "shapes st ! k = shape \<and> type_s shape \<noteq> line"
    with k show moved: "?r = shape\<lparr> x_s := px, y_s := py \<rparr>"
      by (simp add: onDragEnd_def updateShape_def spread_xy)
    show "width_s ?r = width_s shape" by (simp add: moved)
    show "height_s ?r = height_s shape" by (simp add: moved)
    show "radius_s ?r = radius_s shape" by (simp add: moved) }
qed

theorem onDragEnd_translates_witness:
  "shapes (onDragEnd sample_state sample_line (5, 7)) ! 2 =
     sample_line\<lparr> x_s := 6, y_s := 9, x2_s := Some 36, y2_s := Some 49 \<rparr> \<and>
   shapes (onDragEnd sample_state sample_line (5, 7)) ! 0 = sample_rectangle \<and>
   shapes (onDragEnd sample_state sample_circle (5, 7)) ! 1 =
     sample_circle\<lparr> x_s := 5, y_s := 7 \<rparr> \<and>
   radius_s (shapes (onDragEnd sample_state sample_circle (5, 7)) ! 1) = Some 30"
proof -
  have sh: "shapes sample_state = [sample_rectangle, sample_circle, sample_line]"
    by (simp add: sample_state_def)
  have ids: "id_s sample_rectangle = ''r1''" "id_s sample_circle = ''c1''" "id_s sample_line = ''l1''"
    and tys: "type_s sample_circle = circle" "type_s sample_line = line"
    by (simp_all add: sample_rectangle_def sample_circle_def sample_line_def)
  note l = onDragEnd_translates [where st = sample_state and shape = sample_line
      and px = 5 and py = 7]
  note c = onDragEnd_translates [where st = sample_state and shape = sample_circle
      and px = 5 and py = 7]
  from l have "shapes (onDragEnd sample_state sample_line (5, 7)) ! 2 =
      sample_line\<lparr> x_s := to_double (x_s sample_line + 5), y_s := to_double (y_s sample_line + 7),
                   x2_s := js_add (x2_s sample_line) 5, y2_s := js_add (y2_s sample_line) 7 \<rparr>"
    by (simp add: sh tys)
  then have 1: "shapes (onDragEnd sample_state sample_line (5, 7)) ! 2 =
      sample_line\<lparr> x_s := 6, y_s := 9, x2_s := Some 36, y2_s := Some 49 \<rparr>"
    by (simp add: sample_line_def js_add_def double_small_integers)
  from l have 2: "shapes (onDragEnd sample_state sample_line (5, 7)) ! 0 = sample_rectangle"
    by (simp add: sh ids)
  from c have 3: "shapes (onDragEnd sample_state sample_circle (5, 7)) ! 1 =
      sample_circle\<lparr> x_s := 5, y_s := 7 \<rparr>"
    and "radius_s (shapes (onDragEnd sample_state sample_circle (5, 7)) ! 1) = radius_s sample_circle"
    by (simp_all add: sh tys)
  then have 4: "radius_s (shapes (onDragEnd sample_state sample_circle (5, 7)) ! 1) = Some 30"
    by (simp add: sample_circle_def)
  from 1 2 3 4 show ?thesis by simp
qed

text \<open>
  Against claim C9 as stated: the line from \<^verbatim>\<open>0.1\<close> to \<^verbatim>\<open>0.2\<close> dragged by \<^verbatim>\<open>0.3\<close>
  along the x-axis is stored with \<open>x\<close> the double of \<^verbatim>\<open>0.4\<close> and \<open>x2 = 0.5\<close>, and its
  offset \<open>x2 - x\<close> is no longer the one it had (the program prints
  \<^verbatim>\<open>0.09999999999999998\<close> for it, and \<^verbatim>\<open>0.1\<close> before the drag).
\<close>

theorem onDragEnd_offset_counterexample:
  "x_s (shapes (onDragEnd tenth_state tenth_line (5404319552844595 / 18014398509481984, 0)) ! 0)
     = 7205759403792794 / 18014398509481984 \<and>
   x2_s (shapes (onDragEnd tenth_state tenth_line (5404319552844595 / 18014398509481984, 0)) ! 0)
     = Some (1 / 2) \<and>
   js_sub (x2_s tenth_line) (x_s tenth_line) = Some (3602879701896397 / 36028797018963968) \<and>
   js_sub
     (x2_s (shapes (onDragEnd tenth_state tenth_line (5404319552844595 / 18014398509481984, 0)) ! 0))
     (x_s (shapes (onDragEnd tenth_state tenth_line (5404319552844595 / 18014398509481984, 0)) ! 0))
     = Some (1801439850948198 / 18014398509481984) \<and>
   js_sub
     (x2_s (shapes (onDragEnd tenth_state tenth_line (5404319552844595 / 18014398509481984, 0)) ! 0))
     (x_s (shapes (onDragEnd tenth_state tenth_line (5404319552844595 / 18014398509481984, 0)) ! 0))
     \<noteq> js_sub (x2_s tenth_line) (x_s tenth_line)"
proof -
  have r: "shapes (onDragEnd tenth_state tenth_line (5404319552844595 / 18014398509481984, 0)) ! 0 =
      tenth_line\<lparr> x_s := 7205759403792794 / 18014398509481984, y_s := 0,
                   x2_s := Some (1 / 2), y2_s := Some 0 \<rparr>"
    by (simp add: onDragEnd_def updateShape_def Let_def spread_xy_x2y2 tenth_state_def
        js_add_def)
       (simp add: tenth_line_def to_double_def exponent_def bits.simps pow2_def
        round_half_even_def Let_def)
  show ?thesis
    unfolding r by (simp add: tenth_line_def js_sub_def)
qed

subsection \<open>Loading the saved drawing\<close>

text \<open>
  Claim C3, amended. The initialiser reads the entry under the key \<^verbatim>\<open>drawing\<close>. It
  yields the empty list when the entry is absent or is the empty string. A non-empty entry
  goes to the parser: a rejected text gives the parser's error, which nothing catches, and
  an accepted text gives the parsed value.
\<close>

theorem initialShapes_cases:
  "(store ''drawing'' = None \<longrightarrow> initialShapes parse store = Inr []) \<and>
   (store ''drawing'' = Some [] \<longrightarrow> initialShapes parse store = Inr []) \<and>
   (store ''drawing'' = Some s \<and> s \<noteq> [] \<and> parse s = None \<longrightarrow>
      initialShapes parse store = Inl SyntaxError) \<and>
   (store ''drawing'' = Some s \<and> s \<noteq> [] \<and> parse s = Some v \<longrightarrow>
      initialShapes parse store = Inr v)"
  by (simp add: initialShapes_def truthy_def)

theorem initialShapes_cases_witness:
  "initialShapes parse_empty_array Map.empty = Inr [] \<and>
   initialShapes parse_empty_array [''drawing'' \<mapsto> ''''] = Inr [] \<and>
   initialShapes parse_empty_array [''drawing'' \<mapsto> ''[]''] = Inr [] \<and>
   initialShapes parse_empty_array [''other'' \<mapsto> ''[]'', ''drawing'' \<mapsto> ''{x''] = Inl SyntaxError"
  using initialShapes_cases [where store = Map.empty and parse = parse_empty_array]
    initialShapes_cases [where store = "[''drawing'' \<mapsto> '''']" and parse = parse_empty_array]
    initialShapes_cases [where store = "[''drawing'' \<mapsto> ''[]'']" and parse = parse_empty_array
                          and s = "''[]''" and v = "[]"]
    initialShapes_cases [where store = "[''other'' \<mapsto> ''[]'', ''drawing'' \<mapsto> ''{x'']"
                          and parse = parse_empty_array and s = "''{x''"]
  by (simp add: parse_empty_array_def)

text \<open>
  Against claim C3 as stated: with the unparsable text \<^verbatim>\<open>{\<close> stored under
  \<^verbatim>\<open>drawing\<close>, the initialiser does not yield the empty list: the error of the parser
  comes out of it.
\<close>

theorem initialShapes_unparsable_counterexample:
  "parse_empty_array ''{'' = None \<and>
   initialShapes parse_empty_array [''drawing'' \<mapsto> ''{''] = Inl SyntaxError \<and>
   initialShapes parse_empty_array [''drawing'' \<mapsto> ''{''] \<noteq> Inr []"
  by (simp add: initialShapes_def parse_empty_array_def truthy_def)

subsection \<open>Saving and loading\<close>

text \<open>
  What \<^verbatim>\<open>saveDrawing\<close> writes is what the initialiser reads: both use the key
  \<^verbatim>\<open>drawing\<close>, the saved text replaces what the store held, and no other key is
  touched. Whether the parsed value is the saved list is a property of the platform's
  \<^verbatim>\<open>JSON.stringify\<close> and \<^verbatim>\<open>JSON.parse\<close>, which this model does not describe.
\<close>

lemma saveDrawing_read_back:
  "initialShapes parse (saveDrawing stringify st store) =
     (if stringify (shapes st) = [] then Inr []
      else case parse (stringify (shapes st)) of None \<Rightarrow> Inl SyntaxError | Some v \<Rightarrow> Inr v)"
  by (simp add: initialShapes_def saveDrawing_def truthy_def)

lemma saveDrawing_other_keys:
  "k \<noteq> ''drawing'' \<Longrightarrow> saveDrawing stringify st store k = store k"
  by (simp add: saveDrawing_def)

end
